theory Spec2Isabelle
  imports Main
begin

section \<open>The aiohttp request-argument parser of webargs\<close>

text \<open>
  A shallow embedding of \<^verbatim>\<open>src/webargs/aiohttpparser.py\<close>. Python objects become
  datatypes and records, the module-level exception table and the parser's
  \<^verbatim>\<open>self._cache\<close> become maps, every \<^verbatim>\<open>raise\<close> becomes a value of the type
  \<open>exn\<close>, and the loaders pass the parser's state explicitly.
\<close>

subsection \<open>Python values\<close>

text \<open>
  What \<^verbatim>\<open>json.loads\<close> produces: Python's \<^verbatim>\<open>None\<close>, booleans, integers, strings, lists
  and dicts (an association list keeps the order of the keys). \<open>JNull\<close> is Python's
  \<^verbatim>\<open>None\<close>. The module never looks into a payload beyond asking whether it is
  \<^verbatim>\<open>None\<close>, and numbers with a fraction are left out.
\<close>

datatype json =
    JNull
  | JBool bool
  | JInt int
  | JStr string
  | JArr "json list"
  | JObj "(string \<times> json) list"

text \<open>A multi-valued mapping (aiohttp's \<^verbatim>\<open>MultiDict\<close>): the pairs in submission order.\<close>

type_synonym multidict = "(string \<times> string) list"

text \<open>The objects the parser handles as raw data: a decoded JSON payload or a multidict.\<close>

datatype pyval = Json json | MultiDict multidict

definition PyNone :: pyval where
  "PyNone = Json JNull"

text \<open>
  A schema is opaque to this module; what the proxy view reads of it is which of its
  fields are list-typed.
\<close>

datatype field_kind = ScalarField | ListField

type_synonym schema = "(string \<times> field_kind) list"

text \<open>
  What a loader returns: the sentinel \<^verbatim>\<open>core.missing\<close>, a raw object, or a
  \<^verbatim>\<open>MultiDictProxy(data, schema)\<close>.
\<close>

datatype loaded = Missing | Value pyval | MultiDictProxy pyval schema

subsection \<open>Classes and exceptions\<close>

text \<open>
  A Python class as far as the module looks at it: its identity, the identities of all
  its proper ancestors, and its \<^verbatim>\<open>status_code\<close> attribute (\<open>None\<close> for Python's
  \<^verbatim>\<open>None\<close>).
\<close>

record pyclass =
  cname :: string
  ancestors :: "string list"
  status_code :: "int option"

definition issubclass :: "pyclass \<Rightarrow> pyclass \<Rightarrow> bool" where
  "issubclass a b = (cname a = cname b \<or> cname b \<in> set (ancestors a))"

text \<open>An attribute of \<^verbatim>\<open>aiohttp.web_exceptions\<close> listed in its \<^verbatim>\<open>__all__\<close>.\<close>

datatype module_attr = ClassObj pyclass | NonClassObj

text \<open>
  \<^verbatim>\<open>class HTTPUnprocessableEntity(web.HTTPClientError): status_code = 422\<close>
\<close>

definition HTTPUnprocessableEntity :: pyclass where
  "HTTPUnprocessableEntity =
     \<lparr>cname = ''webargs.HTTPUnprocessableEntity'',
      ancestors = [''HTTPClientError'', ''HTTPError'', ''HTTPException''],
      status_code = Some 422\<rparr>"

text \<open>The response an HTTP error class is raised with.\<close>

record http_error =
  err_class :: pyclass
  err_body :: string
  err_headers :: "multidict option"
  err_content_type :: string

datatype exn =
    HTTPError http_error
  | LookupError "int option"
  | KeyError int
  | ValueError string
  | NotImplementedError string
  | PyException string

datatype 'a result = Returns 'a | Raises exn

subsection \<open>The exception table\<close>

type_synonym exception_map = "int \<rightharpoonup> pyclass"

text \<open>\<^verbatim>\<open>exception_map = {422: HTTPUnprocessableEntity}\<close>\<close>

definition exception_map_seed :: exception_map where
  "exception_map_seed = [422 \<mapsto> HTTPUnprocessableEntity]"

text \<open>
  \<^verbatim>\<open>issubclass(obj, web_exceptions.HTTPException)\<close>, with the \<^verbatim>\<open>TypeError\<close> of a
  non-class caught and turned into \<^verbatim>\<open>False\<close>.
\<close>

fun is_http_exception :: "module_attr \<Rightarrow> bool" where
  "is_http_exception (ClassObj c) =
     (cname c = ''HTTPException'' \<or> ''HTTPException'' \<in> set (ancestors c))"
| "is_http_exception NonClassObj = False"

text \<open>One round of the loop of \<^verbatim>\<open>_find_exceptions\<close>.\<close>

fun register :: "exception_map \<Rightarrow> module_attr \<Rightarrow> exception_map" where
  "register m NonClassObj = m"
| "register m (ClassObj obj) =
     (if \<not> is_http_exception (ClassObj obj) then m
      else case status_code obj of
        None \<Rightarrow> m
      | Some code \<Rightarrow>
          (case m code of
             None \<Rightarrow> m(code \<mapsto> obj)
           | Some old_obj \<Rightarrow> if issubclass obj old_obj then m else m(code \<mapsto> obj)))"

text \<open>
  \<^verbatim>\<open>_find_exceptions()\<close> over the attributes \<open>all\<close> that \<^verbatim>\<open>web_exceptions.__all__\<close>
  names, in that order, starting from the table \<open>m\<close>. The framework's list is not part
  of this repository and is a parameter.
\<close>

definition find_exceptions :: "module_attr list \<Rightarrow> exception_map \<Rightarrow> exception_map" where
  "find_exceptions all m = foldl register m all"

text \<open>The module's table once it is imported.\<close>

definition exception_map :: "module_attr list \<Rightarrow> exception_map" where
  "exception_map all = find_exceptions all exception_map_seed"

subsection \<open>Requests, the environment and the parser's state\<close>

text \<open>
  What \<^verbatim>\<open>await req.text()\<close> does: it gives the body as text, or raises
  \<^verbatim>\<open>UnicodeDecodeError\<close> when the bytes do not decode, or raises another exception,
  named by its class.
\<close>

datatype text_outcome = Text string | TextUnicodeDecodeError | TextRaises string

text \<open>
  What the module reads of an \<^verbatim>\<open>aiohttp.web.Request\<close>. \<open>body_text\<close> is the outcome of
  \<^verbatim>\<open>await req.text()\<close>; \<open>post\<close> is what \<^verbatim>\<open>await req.post()\<close> returns.
\<close>

record request =
  body_exists :: bool
  content_type :: string
  body_text :: text_outcome
  post :: multidict
  query :: multidict
  headers :: multidict
  cookies :: multidict
  match_info :: multidict

text \<open>
  What \<^verbatim>\<open>json.loads\<close> does with a document: it returns the payload, or raises
  \<^verbatim>\<open>JSONDecodeError\<close>, or raises another exception, named by its class (a
  \<^verbatim>\<open>RecursionError\<close> on a document nested too deeply, say).
\<close>

datatype loads_outcome = Loaded json | LoadsJSONDecodeError | LoadsRaises string

text \<open>
  The collaborators that are not part of this module: \<^verbatim>\<open>core.is_json\<close>,
  \<^verbatim>\<open>json.loads\<close>, \<^verbatim>\<open>json.dumps\<close>, and the module-level table \<^verbatim>\<open>exception_map\<close> as
  it stands when a request is served.
\<close>

record env =
  is_json :: "string \<Rightarrow> bool"
  json_loads :: "string \<Rightarrow> loads_outcome"
  json_dumps :: "json \<Rightarrow> string"
  emap :: exception_map

text \<open>
  Modelled from the spec: \<^verbatim>\<open>DEFAULT_VALIDATION_STATUS\<close> is an attribute of
  \<^verbatim>\<open>core.Parser\<close>, which is not among the sources; the spec gives the default
  validation-failure status as 422.
\<close>

definition DEFAULT_VALIDATION_STATUS :: int where
  "DEFAULT_VALIDATION_STATUS = 422"

text \<open>
  The parser's state: \<^verbatim>\<open>self._cache\<close>, and two counters that record how often the
  body-read operations \<^verbatim>\<open>req.json()\<close> and \<^verbatim>\<open>req.post()\<close> have been awaited.
\<close>

record parser_state =
  cache :: "string \<rightharpoonup> pyval"
  json_reads :: nat
  post_reads :: nat

definition init_state :: parser_state where
  "init_state = \<lparr>cache = Map.empty, json_reads = 0, post_reads = 0\<rparr>"

text \<open>\<^verbatim>\<open>d.get(k)\<close>: the value stored under \<open>k\<close>, Python's \<^verbatim>\<open>None\<close> when there is none.\<close>

definition dict_get :: "(string \<rightharpoonup> pyval) \<Rightarrow> string \<Rightarrow> pyval" where
  "dict_get d k = (case d k of None \<Rightarrow> PyNone | Some v \<Rightarrow> v)"

subsection \<open>The loaders\<close>

definition is_json_request :: "env \<Rightarrow> request \<Rightarrow> bool" where
  "is_json_request e req = is_json e (content_type req)"

text \<open>
  The outcome of \<^verbatim>\<open>await req.json(loads=json.loads)\<close>: aiohttp decodes the body to
  text and applies \<^verbatim>\<open>loads\<close> to it; a \<^verbatim>\<open>JSONDecodeError\<close> carries the document it was
  given as \<^verbatim>\<open>doc\<close>. Any other exception that either step raises comes out of the call
  as it is.
\<close>

datatype json_outcome =
    JsonOk json
  | JSONDecodeError string
  | UnicodeDecodeError
  | OtherException string

definition req_json :: "env \<Rightarrow> request \<Rightarrow> json_outcome" where
  "req_json e req =
     (case body_text req of
        TextUnicodeDecodeError \<Rightarrow> UnicodeDecodeError
      | TextRaises x \<Rightarrow> OtherException x
      | Text doc \<Rightarrow>
          (case json_loads e doc of
             LoadsJSONDecodeError \<Rightarrow> JSONDecodeError doc
           | LoadsRaises x \<Rightarrow> OtherException x
           | Loaded v \<Rightarrow> JsonOk v))"

definition invalid_json_messages :: json where
  "invalid_json_messages = JObj [(''json'', JArr [JStr ''Invalid JSON body.''])]"

definition handle_invalid_json_error :: "env \<Rightarrow> 'a result" where
  "handle_invalid_json_error e =
     (case emap e 400 of
        None \<Rightarrow> Raises (KeyError 400)
      | Some error_class \<Rightarrow>
          Raises (HTTPError
            \<lparr>err_class = error_class,
             err_body = json_dumps e invalid_json_messages,
             err_headers = None,
             err_content_type = ''application/json''\<rparr>))"

definition load_querystring :: "request \<Rightarrow> schema \<Rightarrow> loaded" where
  "load_querystring req schema = MultiDictProxy (MultiDict (query req)) schema"

definition load_form :: "request \<Rightarrow> schema \<Rightarrow> parser_state \<Rightarrow> loaded result \<times> parser_state" where
  "load_form req schema st =
     (let post_data = dict_get (cache st) ''post'' in
      if post_data = PyNone then
        (let d = MultiDict (post req) in
         (Returns (MultiDictProxy d schema),
          st\<lparr>cache := (cache st)(''post'' \<mapsto> d), post_reads := Suc (post_reads st)\<rparr>))
      else (Returns (MultiDictProxy post_data schema), st))"

definition load_json :: "env \<Rightarrow> request \<Rightarrow> schema \<Rightarrow> parser_state \<Rightarrow> loaded result \<times> parser_state" where
  "load_json e req schema st =
     (let json_data = dict_get (cache st) ''json'' in
      if json_data = PyNone then
        if \<not> (body_exists req \<and> is_json_request e req) then (Returns Missing, st)
        else
          (let st1 = st\<lparr>json_reads := Suc (json_reads st)\<rparr> in
           case req_json e req of
             JsonOk v \<Rightarrow>
               (Returns (Value (Json v)), st1\<lparr>cache := (cache st1)(''json'' \<mapsto> Json v)\<rparr>)
           | JSONDecodeError doc \<Rightarrow>
               if doc = [] then (Returns Missing, st1)
               else (handle_invalid_json_error e, st1)
           | UnicodeDecodeError \<Rightarrow> (handle_invalid_json_error e, st1)
           | OtherException x \<Rightarrow> (Raises (PyException x), st1))
      else (Returns (Value json_data), st))"

definition load_json_or_form :: "env \<Rightarrow> request \<Rightarrow> schema \<Rightarrow> parser_state \<Rightarrow> loaded result \<times> parser_state" where
  "load_json_or_form e req schema st =
     (case load_json e req schema st of
        (Returns data, st1) \<Rightarrow>
          if data \<noteq> Missing then (Returns data, st1) else load_form req schema st1
      | (Raises x, st1) \<Rightarrow> (Raises x, st1))"

definition load_headers :: "request \<Rightarrow> schema \<Rightarrow> loaded" where
  "load_headers req schema = MultiDictProxy (MultiDict (headers req)) schema"

definition load_cookies :: "request \<Rightarrow> schema \<Rightarrow> loaded" where
  "load_cookies req schema = MultiDictProxy (MultiDict (cookies req)) schema"

definition load_files :: "request \<Rightarrow> schema \<Rightarrow> loaded result" where
  "load_files req schema =
     Raises (NotImplementedError
       ''load_files is not implemented. You may be able to use load_form for parsing upload data.'')"

definition load_match_info :: "request \<Rightarrow> schema \<Rightarrow> loaded" where
  "load_match_info req schema = Value (MultiDict (match_info req))"

subsection \<open>Locations\<close>

text \<open>
  Modelled from the spec: \<^verbatim>\<open>core.Parser.__location_map__\<close>, which the class extends
  with \<^verbatim>\<open>match_info\<close> and \<^verbatim>\<open>path\<close>, is not among the sources; the spec lists the
  locations \<^verbatim>\<open>query\<close>, \<^verbatim>\<open>form\<close>, \<^verbatim>\<open>json\<close>, \<^verbatim>\<open>json_or_form\<close>, \<^verbatim>\<open>headers\<close>,
  \<^verbatim>\<open>cookies\<close> and \<^verbatim>\<open>files\<close> with one loader each.
\<close>

datatype location =
    LocQuery | LocForm | LocJson | LocJsonOrForm | LocHeaders | LocCookies | LocFiles
  | LocMatchInfo | LocPath

fun load_location ::
  "env \<Rightarrow> location \<Rightarrow> request \<Rightarrow> schema \<Rightarrow> parser_state \<Rightarrow> loaded result \<times> parser_state" where
  "load_location e LocQuery req schema st = (Returns (load_querystring req schema), st)"
| "load_location e LocForm req schema st = load_form req schema st"
| "load_location e LocJson req schema st = load_json e req schema st"
| "load_location e LocJsonOrForm req schema st = load_json_or_form e req schema st"
| "load_location e LocHeaders req schema st = (Returns (load_headers req schema), st)"
| "load_location e LocCookies req schema st = (Returns (load_cookies req schema), st)"
| "load_location e LocFiles req schema st = (load_files req schema, st)"
| "load_location e LocMatchInfo req schema st = (Returns (load_match_info req schema), st)"
| "load_location e LocPath req schema st = (Returns (load_match_info req schema), st)"

text \<open>
  A sequence of location loads within one request, each with its schema. A load that
  raises leaves the state as it was at the \<^verbatim>\<open>raise\<close>, and a caller that catches the
  error may go on.
\<close>

fun run_loads :: "env \<Rightarrow> request \<Rightarrow> (location \<times> schema) list \<Rightarrow> parser_state \<Rightarrow> parser_state" where
  "run_loads e req [] st = st"
| "run_loads e req ((loc, schema) # rest) st =
     run_loads e req rest (snd (load_location e loc req schema st))"

subsection \<open>Finding the request, reporting a validation error\<close>

text \<open>
  A positional argument of a handler: a \<^verbatim>\<open>web.Request\<close>, a \<^verbatim>\<open>web.View\<close> with the
  object its \<^verbatim>\<open>request\<close> attribute holds, or anything else (a path parameter, say).
\<close>

datatype pyarg = RequestObj request | ViewObj pyarg | OtherObj string

text \<open>The loop: \<open>None\<close> when it ends with \<^verbatim>\<open>req\<close> still \<^verbatim>\<open>None\<close>.\<close>

fun first_request_or_view :: "pyarg list \<Rightarrow> pyarg option" where
  "first_request_or_view [] = None"
| "first_request_or_view (RequestObj r # args) = Some (RequestObj r)"
| "first_request_or_view (ViewObj v # args) = Some v"
| "first_request_or_view (OtherObj x # args) = first_request_or_view args"

definition get_request_from_view_args :: "pyarg list \<Rightarrow> request result" where
  "get_request_from_view_args args =
     (case first_request_or_view args of
        Some (RequestObj req) \<Rightarrow> Returns req
      | _ \<Rightarrow> Raises (ValueError ''Request argument not found for handler''))"

text \<open>\<^verbatim>\<open>error_status_code or self.DEFAULT_VALIDATION_STATUS\<close>\<close>

fun status_or_default :: "int option \<Rightarrow> int" where
  "status_or_default None = DEFAULT_VALIDATION_STATUS"
| "status_or_default (Some n) = (if n = 0 then DEFAULT_VALIDATION_STATUS else n)"

text \<open>
  \<^verbatim>\<open>handle_error\<close>, given the messages of the \<^verbatim>\<open>ValidationError\<close>. The
  \<^verbatim>\<open>LookupError\<close> carries the status it was called with, which the source formats into
  its message.
\<close>

definition handle_error :: "env \<Rightarrow> json \<Rightarrow> int option \<Rightarrow> multidict option \<Rightarrow> 'a result" where
  "handle_error e messages error_status_code error_headers =
     (case emap e (status_or_default error_status_code) of
        None \<Rightarrow> Raises (LookupError error_status_code)
      | Some error_class \<Rightarrow>
          Raises (HTTPError
            \<lparr>err_class = error_class,
             err_body = json_dumps e messages,
             err_headers = error_headers,
             err_content_type = ''application/json''\<rparr>))"

subsection \<open>The proxy view and \<^verbatim>\<open>parse\<close>\<close>

text \<open>All the values submitted under a key, in order.\<close>

definition getall :: "multidict \<Rightarrow> string \<Rightarrow> string list" where
  "getall d key = map snd (filter (\<lambda>kv. fst kv = key) d)"

datatype bound = One string | Many "string list"

text \<open>
  Modelled from the spec: the lookup of \<^verbatim>\<open>MultiDictProxy\<close>
  (\<^verbatim>\<open>webargs/multidictproxy.py\<close>) is not among the sources. The spec has the proxy
  return, for a key that was submitted, the first or only occurrence when the schema
  declares the field scalar, and the full ordered sequence of values when the schema
  declares it list-typed.
\<close>

fun proxy_getitem :: "loaded \<Rightarrow> string \<Rightarrow> bound option" where
  "proxy_getitem (MultiDictProxy (MultiDict d) schema) key =
     (case getall d key of
        [] \<Rightarrow> None
      | v # vs \<Rightarrow>
          if map_of schema key = Some ListField then Some (Many (v # vs)) else Some (One v))"
| "proxy_getitem other key = None"

text \<open>
  Modelled from the spec: \<^verbatim>\<open>parse\<close> (\<^verbatim>\<open>core.Parser.parse\<close>) is not among the sources.
  The spec has it extract the raw values for the location and hand them to the schema;
  here every field holds strings, which the schema's coercion leaves as they are, and a
  field with no submitted value stays unbound.
\<close>

definition parse_query :: "schema \<Rightarrow> request \<Rightarrow> (string \<rightharpoonup> bound)" where
  "parse_query schema req =
     (\<lambda>name. case map_of schema name of
        None \<Rightarrow> None
      | Some kind \<Rightarrow> proxy_getitem (load_querystring req schema) name)"

subsection \<open>Notions the statements use\<close>

text \<open>
  The classes of the enumeration that the scan takes up for a status code: the HTTP
  exceptions whose \<^verbatim>\<open>status_code\<close> is that code, in the order of the enumeration.
\<close>

fun candidates :: "module_attr list \<Rightarrow> int \<Rightarrow> pyclass list" where
  "candidates [] code = []"
| "candidates (NonClassObj # all) code = candidates all code"
| "candidates (ClassObj c # all) code =
     (if is_http_exception (ClassObj c) \<and> status_code c = Some code
      then c # candidates all code else candidates all code)"

text \<open>An argument that is neither a request nor a view.\<close>

fun is_other :: "pyarg \<Rightarrow> bool" where
  "is_other (OtherObj x) = True"
| "is_other (RequestObj r) = False"
| "is_other (ViewObj v) = False"

subsection \<open>Example inputs\<close>

text \<open>
  An enumeration with a non-class attribute, a class of status 400 and a subclass of
  it with the same status; and stand-ins for the collaborators, which decode the two
  documents \<^verbatim>\<open>null\<close> and \<^verbatim>\<open>{}\<close>, raise \<^verbatim>\<open>RecursionError\<close> on a thousand
  opening brackets, as \<^verbatim>\<open>json.loads\<close> does, and reject every other document.
\<close>

definition HTTPBadRequest :: pyclass where
  "HTTPBadRequest =
     \<lparr>cname = ''HTTPBadRequest'',
      ancestors = [''HTTPClientError'', ''HTTPError'', ''HTTPException''],
      status_code = Some 400\<rparr>"

definition StrictBadRequest :: pyclass where
  "StrictBadRequest =
     \<lparr>cname = ''StrictBadRequest'',
      ancestors = [''HTTPBadRequest'', ''HTTPClientError'', ''HTTPError'', ''HTTPException''],
      status_code = Some 400\<rparr>"

definition example_all :: "module_attr list" where
  "example_all = [NonClassObj, ClassObj HTTPBadRequest, ClassObj StrictBadRequest]"

definition deep_document :: string where
  "deep_document = replicate 1000 CHR ''[''"

definition example_loads :: "string \<Rightarrow> loads_outcome" where
  "example_loads doc =
     (if doc = ''null'' then Loaded JNull
      else if doc = ''{}'' then Loaded (JObj [])
      else if doc = deep_document then LoadsRaises ''RecursionError''
      else LoadsJSONDecodeError)"

definition example_dumps :: "json \<Rightarrow> string" where
  \<open>example_dumps j =
     (if j = invalid_json_messages then ''{"json": ["Invalid JSON body."]}''
      else ''{}'')\<close>

definition example_env :: env where
  "example_env =
     \<lparr>is_json = (\<lambda>ct. ct = ''application/json''),
      json_loads = example_loads,
      json_dumps = example_dumps,
      emap = exception_map example_all\<rparr>"

definition example_messages :: json where
  "example_messages = JObj [(''name'', JArr [JStr ''Shorter than minimum length 3.''])]"

text \<open>
  A request with a JSON content type whose body is the document \<^verbatim>\<open>{}\<close>, two query
  keys, one of them submitted twice, and a path parameter.
\<close>

definition example_request :: request where
  "example_request =
     \<lparr>body_exists = True, content_type = ''application/json'', body_text = Text ''{}'',
      post = [], query = [(''name'', ''Ada''), (''tag'', ''a''), (''tag'', ''b'')],
      headers = [], cookies = [], match_info = [(''id'', ''7'')]\<rparr>"

text \<open>
  Requests with a JSON content type whose body is the document \<^verbatim>\<open>null\<close>, is
  empty, is not JSON, and is not JSON and nested too deeply; and a request that submits
  a form.
\<close>

definition null_request :: request where
  "null_request = example_request\<lparr>body_text := Text ''null''\<rparr>"

definition empty_request :: request where
  "empty_request = example_request\<lparr>body_text := Text []\<rparr>"

definition malformed_request :: request where
  "malformed_request = example_request\<lparr>body_text := Text ''{name''\<rparr>"

definition deep_request :: request where
  "deep_request = example_request\<lparr>body_text := Text deep_document\<rparr>"

definition form_request :: request where
  "form_request =
     example_request
       \<lparr>content_type := ''application/x-www-form-urlencoded'',
        body_text := Text ''name=Ada'',
        post := [(''name'', ''Ada'')]\<rparr>"

text \<open>
  What the cache can hold while one request is served: under \<^verbatim>\<open>json\<close> nothing, or
  \<^verbatim>\<open>None\<close>, or the payload that reading this request's body gives; under \<^verbatim>\<open>post\<close>
  nothing or this request's form data.
\<close>

definition cache_ok :: "env \<Rightarrow> request \<Rightarrow> parser_state \<Rightarrow> bool" where
  "cache_ok e req st =
     ((case dict_get (cache st) ''json'' of
         Json v \<Rightarrow>
           v = JNull \<or> (body_exists req \<and> is_json_request e req \<and> req_json e req = JsonOk v)
       | MultiDict d \<Rightarrow> False)
      \<and> (dict_get (cache st) ''post'' = PyNone
           \<or> dict_get (cache st) ''post'' = MultiDict (post req)))"

text \<open>
  A body kind has been read at most once, and if it has been read, the cache holds
  what was read.
\<close>

definition post_read_once :: "parser_state \<Rightarrow> bool" where
  "post_read_once st =
     (post_reads st = 0 \<or> (post_reads st = 1 \<and> dict_get (cache st) ''post'' \<noteq> PyNone))"

definition json_read_once :: "parser_state \<Rightarrow> bool" where
  "json_read_once st =
     (json_reads st = 0 \<or> (json_reads st = 1 \<and> dict_get (cache st) ''json'' \<noteq> PyNone))"

text \<open>A schema with a scalar field and a list-typed field.\<close>

definition example_schema :: schema where
  "example_schema = [(''name'', ScalarField), (''tag'', ListField)]"

section \<open>The exception table\<close>

lemma register_other_code:
  "\<not> (\<exists>c. x = ClassObj c \<and> is_http_exception x \<and> status_code c = Some code) \<Longrightarrow>
   register m x code = m code"
  by (cases x) (auto split: option.splits)

lemma register_keeps_dom: "m code \<noteq> None \<Longrightarrow> register m x code \<noteq> None"
  by (cases x) (auto split: option.splits)

lemma find_exceptions_snoc: "find_exceptions (all @ [x]) m = register (find_exceptions all m) x"
  by (simp add: find_exceptions_def)

lemma find_exceptions_keeps_dom: "m code \<noteq> None \<Longrightarrow> find_exceptions all m code \<noteq> None"
  by (induction all rule: rev_induct)
     (simp_all add: find_exceptions_def register_keeps_dom)

lemma candidates_append: "candidates (xs @ ys) code = candidates xs code @ candidates ys code"
  by (induction xs code rule: candidates.induct) auto

text \<open>A status code that no enumerated class carries keeps the entry it had.\<close>

lemma find_exceptions_no_candidates:
  "candidates all code = [] \<Longrightarrow> find_exceptions all m code = m code"
proof (induction all rule: rev_induct)
  case Nil
  then show ?case by (simp add: find_exceptions_def)
next
  case (snoc x xs)
  then show ?case
    by (cases x) (auto simp: find_exceptions_snoc candidates_append split: option.splits if_splits)
qed

text \<open>
  A status code that some enumerated class carries ends up bound, to the entry the
  table started with or to one of these classes, and the class enumerated last for the
  code is a subclass of the one that is bound.
\<close>

lemma find_exceptions_candidates:
  "candidates all code \<noteq> [] \<Longrightarrow>
     \<exists>r. find_exceptions all m code = Some r
        \<and> (r \<in> set (candidates all code) \<or> m code = Some r)
        \<and> issubclass (last (candidates all code)) r"
proof (induction all rule: rev_induct)
  case Nil
  then show ?case by simp
next
  case (snoc x xs)
  show ?case
  proof (cases "\<exists>c. x = ClassObj c \<and> is_http_exception x \<and> status_code c = Some code")
    case True
    then obtain c where
      c: "x = ClassObj c" "is_http_exception (ClassObj c)" "status_code c = Some code"
      by auto
    have app: "candidates (xs @ [x]) code = candidates xs code @ [c]"
      using c by (simp add: candidates_append)
    show ?thesis
    proof (cases "candidates xs code = []")
      case True
      then have "find_exceptions xs m code = m code"
        by (rule find_exceptions_no_candidates)
      then show ?thesis
        using c app by (auto simp: find_exceptions_snoc issubclass_def split: option.splits)
    next
      case False
      from snoc.IH[OF this] obtain r where
        r: "find_exceptions xs m code = Some r"
           "r \<in> set (candidates xs code) \<or> m code = Some r"
        by blast
      then show ?thesis
        using c app by (auto simp: find_exceptions_snoc issubclass_def)
    qed
  next
    case False
    then have same: "candidates (xs @ [x]) code = candidates xs code"
      by (cases x) (auto simp: candidates_append)
    with snoc have "candidates xs code \<noteq> []" by simp
    from snoc.IH[OF this] show ?thesis
      using False by (simp add: same find_exceptions_snoc register_other_code)
  qed
qed

text \<open>Every entry sits under its own status code, if that holds of the starting table.\<close>

lemma find_exceptions_status:
  "(\<And>c cls. m c = Some cls \<Longrightarrow> status_code cls = Some c) \<Longrightarrow>
   find_exceptions all m code = Some r \<Longrightarrow> status_code r = Some code"
proof (induction all arbitrary: r code rule: rev_induct)
  case Nil
  then show ?case by (simp add: find_exceptions_def)
next
  case (snoc x xs)
  then show ?case
    by (cases x) (auto simp: find_exceptions_snoc split: option.splits if_splits)
qed

lemma candidates_in_all:
  "c \<in> set (candidates all code) \<Longrightarrow>
   ClassObj c \<in> set all \<and> is_http_exception (ClassObj c) \<and> status_code c = Some code"
  by (induction all code rule: candidates.induct) (auto split: if_splits)

lemma in_all_candidates:
  "ClassObj c \<in> set all \<Longrightarrow> is_http_exception (ClassObj c) \<Longrightarrow> status_code c = Some code \<Longrightarrow>
   c \<in> set (candidates all code)"
  by (induction all code rule: candidates.induct) (auto split: if_splits)

lemma candidates_nonempty:
  "ClassObj c \<in> set all \<Longrightarrow> is_http_exception (ClassObj c) \<Longrightarrow> status_code c = Some code \<Longrightarrow>
   candidates all code \<noteq> []"
  using in_all_candidates[of c all code] by auto

lemma exception_map_status: "exception_map all code = Some r \<Longrightarrow> status_code r = Some code"
  unfolding exception_map_def
  by (erule find_exceptions_status[rotated])
     (auto simp: exception_map_seed_def HTTPUnprocessableEntity_def split: if_splits)

lemma exception_map_422: "exception_map all 422 \<noteq> None"
  unfolding exception_map_def
  by (rule find_exceptions_keeps_dom) (simp add: exception_map_seed_def)

lemma exception_map_snoc:
  "is_http_exception (ClassObj c) \<Longrightarrow> status_code c = Some code \<Longrightarrow>
   exception_map (all @ [ClassObj c]) code =
     (case exception_map all code of
        None \<Rightarrow> Some c
      | Some old \<Rightarrow> if issubclass c old then Some old else Some c)"
  by (auto simp: exception_map_def find_exceptions_snoc split: option.splits)

lemma example_map_400: "exception_map example_all 400 = Some HTTPBadRequest"
  by (simp add: exception_map_def find_exceptions_def example_all_def exception_map_seed_def
      HTTPBadRequest_def StrictBadRequest_def issubclass_def)

lemma example_map_422: "exception_map example_all 422 = Some HTTPUnprocessableEntity"
  by (simp add: exception_map_def find_exceptions_def example_all_def exception_map_seed_def
      HTTPBadRequest_def StrictBadRequest_def issubclass_def)

lemma example_map_0: "exception_map example_all 0 = None"
  by (simp add: exception_map_def find_exceptions_def example_all_def exception_map_seed_def
      HTTPBadRequest_def StrictBadRequest_def issubclass_def)

text \<open>
  Claim C4, as the spec states it: the scan registers a class unless a more specific
  (subclassed) type is already registered for the code, so that each code ends up with
  the most specific type seen. The code does the opposite. When the base class comes
  first, its subclass is skipped and the code stays with the base class; when the
  subclass comes first, the base class replaces it.
\<close>

theorem most_specific_type_counterexample:
  "exception_map [ClassObj HTTPBadRequest, ClassObj StrictBadRequest] 400 = Some HTTPBadRequest
   \<and> issubclass StrictBadRequest HTTPBadRequest
   \<and> \<not> issubclass HTTPBadRequest StrictBadRequest
   \<and> exception_map [ClassObj StrictBadRequest, ClassObj HTTPBadRequest] 400 = Some HTTPBadRequest"
  by (simp add: exception_map_def find_exceptions_def exception_map_seed_def
      HTTPBadRequest_def StrictBadRequest_def issubclass_def)

text \<open>
  Claim C4, amended: the table is seeded with 422 for \<open>HTTPUnprocessableEntity\<close>; the
  scan registers every enumerated HTTP exception class that has a status code under
  that code unless the class is a subclass of the one already registered there, which
  then stays. So a code that some enumerated class carries ends up bound to the seed's
  entry or to one of these classes, the class enumerated last for the code is a
  subclass of the one bound, and a code that no enumerated class carries keeps the
  seed's entry.
\<close>

theorem find_exceptions_registers:
  "exception_map_seed 422 = Some HTTPUnprocessableEntity
   \<and> (is_http_exception (ClassObj c) \<and> status_code c = Some code \<longrightarrow>
        exception_map (all @ [ClassObj c]) code =
          (case exception_map all code of
             None \<Rightarrow> Some c
           | Some old \<Rightarrow> if issubclass c old then Some old else Some c))
   \<and> (candidates all code \<noteq> [] \<longrightarrow>
        (\<exists>r. exception_map all code = Some r
           \<and> (r \<in> set (candidates all code) \<or> exception_map_seed code = Some r)
           \<and> issubclass (last (candidates all code)) r))
   \<and> (candidates all code = [] \<longrightarrow> exception_map all code = exception_map_seed code)"
  using find_exceptions_candidates[of all code exception_map_seed]
    find_exceptions_no_candidates[of all code exception_map_seed]
    exception_map_snoc[of c code all]
  by (simp add: exception_map_def exception_map_seed_def)

theorem find_exceptions_registers_witness:
  "exception_map (example_all @ [ClassObj StrictBadRequest]) 400 = Some HTTPBadRequest
   \<and> candidates example_all 400 = [HTTPBadRequest, StrictBadRequest]
   \<and> exception_map example_all 400 = Some HTTPBadRequest
   \<and> issubclass StrictBadRequest HTTPBadRequest
   \<and> candidates example_all 404 = []
   \<and> exception_map example_all 404 = None
   \<and> exception_map [] 422 = Some HTTPUnprocessableEntity"
proof -
  have c: "is_http_exception (ClassObj StrictBadRequest) \<and> status_code StrictBadRequest = Some 400"
    by (simp add: StrictBadRequest_def)
  have sub: "issubclass StrictBadRequest HTTPBadRequest"
    by (simp add: issubclass_def StrictBadRequest_def HTTPBadRequest_def)
  have c400: "candidates example_all 400 = [HTTPBadRequest, StrictBadRequest]"
    by (simp add: example_all_def StrictBadRequest_def HTTPBadRequest_def)
  have c404: "candidates example_all 404 = []"
    by (simp add: example_all_def StrictBadRequest_def HTTPBadRequest_def)
  have seed: "exception_map_seed 404 = None" "exception_map_seed 400 = None"
    by (simp_all add: exception_map_seed_def)
  note t = find_exceptions_registers[of StrictBadRequest 400 example_all]
  from t c
  have 1: "exception_map (example_all @ [ClassObj StrictBadRequest]) 400 =
          (case exception_map example_all 400 of
             None \<Rightarrow> Some StrictBadRequest
           | Some old \<Rightarrow> if issubclass StrictBadRequest old then Some old else Some StrictBadRequest)"
    by blast
  from t c400 seed
  have 2: "\<exists>r. exception_map example_all 400 = Some r \<and> r \<in> {HTTPBadRequest, StrictBadRequest}
      \<and> issubclass StrictBadRequest r"
    by simp
  from find_exceptions_registers[of StrictBadRequest 404 example_all] c404 seed
  have 3: "exception_map example_all 404 = None"
    by simp
  from find_exceptions_registers[of StrictBadRequest 422 "[]"]
  have 4: "exception_map [] 422 = Some HTTPUnprocessableEntity"
    by (simp add: exception_map_seed_def)
  from 1 2 3 4 c400 c404 sub show ?thesis
    by (auto simp: example_map_400)
qed

section \<open>The loaders\<close>

text \<open>
  Claim C8: for every request and schema, loading with location \<^verbatim>\<open>files\<close> raises
  \<^verbatim>\<open>NotImplementedError\<close> with a message that points to \<^verbatim>\<open>load_form\<close> for upload
  data, and it never returns a value.
\<close>

theorem load_files_not_implemented:
  "load_location e LocFiles req schema st =
     (Raises (NotImplementedError
        ''load_files is not implemented. You may be able to use load_form for parsing upload data.''), st)
   \<and> (\<forall>v st'. load_location e LocFiles req schema st \<noteq> (Returns v, st'))"
  by (simp add: load_files_def)

section \<open>Reporting errors\<close>

lemma handle_error_not_returns: "handle_error e msgs status hdrs \<noteq> Returns v"
  by (simp add: handle_error_def split: option.splits)

lemma handle_invalid_json_error_not_returns: "handle_invalid_json_error e \<noteq> Returns v"
  by (simp add: handle_invalid_json_error_def split: option.splits)

text \<open>
  Claim C3, as the spec states it: the error type is looked up under the status that is
  given, and a status with no registered type gives a lookup error. With the status 0
  given and nothing registered under 0, the code raises the type registered under 422
  instead.
\<close>

theorem handle_error_status_zero_counterexample:
  "emap example_env 0 = None
   \<and> (handle_error example_env example_messages (Some 0) None :: loaded result) =
       Raises (HTTPError
         \<lparr>err_class = HTTPUnprocessableEntity,
          err_body = json_dumps example_env example_messages,
          err_headers = None,
          err_content_type = ''application/json''\<rparr>)"
  by (simp add: handle_error_def example_env_def example_map_0 example_map_422
      DEFAULT_VALIDATION_STATUS_def)

text \<open>
  Claim C3, amended: \<^verbatim>\<open>handle_error\<close> never returns. For a status other than 0 it
  looks the error type up under that status, and when no status is given, or the
  status is 0, under 422. It raises the type it finds, with the JSON encoding of the
  failure's messages as the body, the headers it was given and the content type
  \<^verbatim>\<open>application/json\<close>; when the table has no type there it raises a lookup error.
\<close>

theorem handle_error_raises:
  "(\<forall>v. handle_error e msgs status hdrs \<noteq> Returns v)
   \<and> (status = Some s \<and> s \<noteq> 0 \<longrightarrow>
        handle_error e msgs status hdrs =
          (case emap e s of
             None \<Rightarrow> Raises (LookupError status)
           | Some error_class \<Rightarrow>
               Raises (HTTPError
                 \<lparr>err_class = error_class,
                  err_body = json_dumps e msgs,
                  err_headers = hdrs,
                  err_content_type = ''application/json''\<rparr>)))
   \<and> (status = None \<or> status = Some 0 \<longrightarrow>
        handle_error e msgs status hdrs =
          (case emap e 422 of
             None \<Rightarrow> Raises (LookupError status)
           | Some error_class \<Rightarrow>
               Raises (HTTPError
                 \<lparr>err_class = error_class,
                  err_body = json_dumps e msgs,
                  err_headers = hdrs,
                  err_content_type = ''application/json''\<rparr>)))"
proof (cases status)
  case None
  then show ?thesis
    by (simp add: handle_error_def DEFAULT_VALIDATION_STATUS_def split: option.splits)
next
  case (Some n)
  then show ?thesis
    by (simp add: handle_error_def DEFAULT_VALIDATION_STATUS_def split: option.splits)
qed

theorem handle_error_raises_witness:
  "(handle_error example_env example_messages (Some 400) None :: loaded result) =
     Raises (HTTPError
       \<lparr>err_class = HTTPBadRequest,
        err_body = json_dumps example_env example_messages,
        err_headers = None,
        err_content_type = ''application/json''\<rparr>)
   \<and> (handle_error example_env example_messages (Some 404) None :: loaded result) =
     Raises (LookupError (Some 404))
   \<and> (handle_error example_env example_messages None None :: loaded result) =
     Raises (HTTPError
       \<lparr>err_class = HTTPUnprocessableEntity,
        err_body = json_dumps example_env example_messages,
        err_headers = None,
        err_content_type = ''application/json''\<rparr>)"
proof -
  have m404: "emap example_env 404 = None"
    by (simp add: example_env_def exception_map_def find_exceptions_def example_all_def
        exception_map_seed_def HTTPBadRequest_def StrictBadRequest_def issubclass_def)
  have m: "emap example_env 400 = Some HTTPBadRequest"
    "emap example_env 422 = Some HTTPUnprocessableEntity"
    by (simp_all add: example_env_def example_map_400 example_map_422)
  show ?thesis
    using handle_error_raises[of example_env example_messages "Some 400" None 400,
        where 'a = loaded, THEN conjunct2]
      handle_error_raises[of example_env example_messages "Some 404" None 404,
        where 'a = loaded, THEN conjunct2]
      handle_error_raises[of example_env example_messages None None 0,
        where 'a = loaded, THEN conjunct2]
    by (simp add: m m404)
qed

text \<open>
  Claim C9: when the status argument is \<^verbatim>\<open>None\<close> or 0, the lookup is made under
  422. The entry under 0, whatever it is, plays no part, and with the table that the
  startup scan builds the call raises the HTTP error registered under 422, never the
  lookup error.
\<close>

theorem handle_error_falsy_status:
  "status = None \<or> status = Some 0 \<longrightarrow>
     handle_error e msgs status hdrs =
       (case emap e 422 of
          None \<Rightarrow> Raises (LookupError status)
        | Some error_class \<Rightarrow>
            Raises (HTTPError
              \<lparr>err_class = error_class,
               err_body = json_dumps e msgs,
               err_headers = hdrs,
               err_content_type = ''application/json''\<rparr>))
     \<and> handle_error (e\<lparr>emap := (emap e)(0 := x)\<rparr>) msgs status hdrs
         = handle_error e msgs status hdrs
     \<and> (emap e = exception_map all \<longrightarrow>
          (\<exists>error_class. exception_map all 422 = Some error_class
             \<and> handle_error e msgs status hdrs =
                 Raises (HTTPError
                   \<lparr>err_class = error_class,
                    err_body = json_dumps e msgs,
                    err_headers = hdrs,
                    err_content_type = ''application/json''\<rparr>)))"
proof (intro impI)
  assume "status = None \<or> status = Some 0"
  then have d: "status_or_default status = 422"
    by (auto simp: DEFAULT_VALIDATION_STATUS_def)
  obtain c where c: "exception_map all 422 = Some c"
    using exception_map_422[of all] by auto
  show "handle_error e msgs status hdrs =
       (case emap e 422 of
          None \<Rightarrow> Raises (LookupError status)
        | Some error_class \<Rightarrow>
            Raises (HTTPError
              \<lparr>err_class = error_class,
               err_body = json_dumps e msgs,
               err_headers = hdrs,
               err_content_type = ''application/json''\<rparr>))
     \<and> handle_error (e\<lparr>emap := (emap e)(0 := x)\<rparr>) msgs status hdrs
         = handle_error e msgs status hdrs
     \<and> (emap e = exception_map all \<longrightarrow>
          (\<exists>error_class. exception_map all 422 = Some error_class
             \<and> handle_error e msgs status hdrs =
                 Raises (HTTPError
                   \<lparr>err_class = error_class,
                    err_body = json_dumps e msgs,
                    err_headers = hdrs,
                    err_content_type = ''application/json''\<rparr>)))"
    by (auto simp: handle_error_def d c split: option.splits)
qed

theorem handle_error_falsy_status_witness:
  "(handle_error example_env example_messages (Some 0) None :: loaded result) =
     Raises (HTTPError
       \<lparr>err_class = HTTPUnprocessableEntity,
        err_body = json_dumps example_env example_messages,
        err_headers = None,
        err_content_type = ''application/json''\<rparr>)
   \<and> (handle_error (example_env\<lparr>emap := (emap example_env)(0 := Some HTTPBadRequest)\<rparr>)
         example_messages (Some 0) None :: loaded result) =
       handle_error example_env example_messages (Some 0) None"
proof -
  have m: "emap example_env = exception_map example_all"
    by (simp add: example_env_def)
  have z: "Some (0::int) = None \<or> Some (0::int) = Some 0"
    by simp
  from handle_error_falsy_status[of "Some 0" example_env example_messages None
      "Some HTTPBadRequest" example_all, where 'a = loaded] z m
  show ?thesis
    by (auto simp: example_map_422)
qed

text \<open>
  Claim C10: after the startup scan the table has an entry for 422, and, the framework
  enumerating an HTTP exception class of status 400, an entry for 400 whose class has
  that status; \<^verbatim>\<open>_handle_invalid_json_error\<close> then raises that class with the fixed
  message, and in no case does it return.
\<close>

theorem exception_map_has_400_and_422:
  "exception_map all 422 \<noteq> None
   \<and> (ClassObj c \<in> set all \<and> is_http_exception (ClassObj c) \<and> status_code c = Some 400 \<longrightarrow>
        (\<exists>error_class. exception_map all 400 = Some error_class
           \<and> status_code error_class = Some 400
           \<and> (emap e = exception_map all \<longrightarrow>
                handle_invalid_json_error e =
                  Raises (HTTPError
                    \<lparr>err_class = error_class,
                     err_body = json_dumps e invalid_json_messages,
                     err_headers = None,
                     err_content_type = ''application/json''\<rparr>))))
   \<and> (\<forall>v. handle_invalid_json_error e \<noteq> Returns v)"
proof -
  have "ClassObj c \<in> set all \<and> is_http_exception (ClassObj c) \<and> status_code c = Some 400 \<longrightarrow>
          (\<exists>r. exception_map all 400 = Some r \<and> status_code r = Some 400)"
    using find_exceptions_candidates[of all 400 exception_map_seed]
      exception_map_status[of all 400] candidates_nonempty[of c all 400]
    by (auto simp: exception_map_def)
  then show ?thesis
    using exception_map_422[of all]
    by (auto simp: handle_invalid_json_error_def split: option.splits)
qed

theorem exception_map_has_400_and_422_witness:
  \<open>exception_map example_all 422 \<noteq> None
   \<and> ClassObj HTTPBadRequest \<in> set example_all
   \<and> exception_map example_all 400 = Some HTTPBadRequest
   \<and> (handle_invalid_json_error example_env :: loaded result) =
       Raises (HTTPError
         \<lparr>err_class = HTTPBadRequest,
          err_body = ''{"json": ["Invalid JSON body."]}'',
          err_headers = None,
          err_content_type = ''application/json''\<rparr>)\<close>
proof -
  have c: "ClassObj HTTPBadRequest \<in> set example_all
      \<and> is_http_exception (ClassObj HTTPBadRequest) \<and> status_code HTTPBadRequest = Some 400"
    by (simp add: example_all_def HTTPBadRequest_def)
  have m: "emap example_env = exception_map example_all"
    by (simp add: example_env_def)
  have d: \<open>json_dumps example_env invalid_json_messages = ''{"json": ["Invalid JSON body."]}''\<close>
    by (simp add: example_env_def example_dumps_def)
  from exception_map_has_400_and_422[where all = example_all and c = HTTPBadRequest
      and e = example_env and 'a = loaded] c m
  show ?thesis
    by (auto simp: example_map_400 d)
qed

section \<open>Finding the request\<close>

lemma first_request_or_view_others:
  "list_all is_other pre \<Longrightarrow> first_request_or_view (pre @ rest) = first_request_or_view rest"
  by (induction pre rule: first_request_or_view.induct) auto

lemma first_request_or_view_all_others:
  "list_all is_other args \<Longrightarrow> first_request_or_view args = None"
  by (induction args rule: first_request_or_view.induct) auto

lemma first_request_or_view_in_args:
  "first_request_or_view args = Some x \<Longrightarrow> x \<in> set args \<or> ViewObj x \<in> set args"
  by (induction args rule: first_request_or_view.induct) auto

text \<open>
  Claim C7: \<^verbatim>\<open>get_request_from_view_args\<close> finds the request among the positional
  arguments wherever it sits: behind any number of arguments that are neither a request
  nor a view, an argument that is a request is returned, and for a view its
  \<^verbatim>\<open>request\<close>. When no argument is a request or a view it raises the error. What it
  returns is always an argument that is a request or the request of a view, never
  another argument such as a path parameter.
\<close>

theorem get_request_from_view_args_locates:
  "(list_all is_other pre \<longrightarrow>
      get_request_from_view_args (pre @ RequestObj req # rest) = Returns req
      \<and> get_request_from_view_args (pre @ ViewObj (RequestObj req) # rest) = Returns req)
   \<and> (list_all is_other args \<longrightarrow>
        get_request_from_view_args args =
          Raises (ValueError ''Request argument not found for handler''))
   \<and> (get_request_from_view_args args = Returns req \<longrightarrow>
        RequestObj req \<in> set args \<or> ViewObj (RequestObj req) \<in> set args)"
proof -
  have "get_request_from_view_args args = Returns req \<longrightarrow>
        RequestObj req \<in> set args \<or> ViewObj (RequestObj req) \<in> set args"
    using first_request_or_view_in_args[of args "RequestObj req"]
    by (auto simp: get_request_from_view_args_def split: option.splits pyarg.splits)
  then show ?thesis
    by (simp add: get_request_from_view_args_def first_request_or_view_others
        first_request_or_view_all_others)
qed

theorem get_request_from_view_args_locates_witness:
  "get_request_from_view_args [OtherObj ''7'', RequestObj example_request] = Returns example_request
   \<and> get_request_from_view_args [OtherObj ''7'', ViewObj (RequestObj example_request), OtherObj ''x'']
       = Returns example_request
   \<and> get_request_from_view_args [OtherObj ''7'', OtherObj ''x'']
       = Raises (ValueError ''Request argument not found for handler'')
   \<and> RequestObj example_request \<in> set [RequestObj example_request, OtherObj ''7'']"
  using get_request_from_view_args_locates[of "[OtherObj ''7'']" example_request "[]"
      "[OtherObj ''7'', OtherObj ''x'']"]
    get_request_from_view_args_locates[of "[OtherObj ''7'']" example_request "[OtherObj ''x'']"
      "[RequestObj example_request, OtherObj ''7'']"]
  by simp

section \<open>The per-request cache\<close>

lemma cache_ok_init: "cache_ok e req init_state"
  by (simp add: cache_ok_def init_state_def dict_get_def PyNone_def)

lemma load_form_cache_ok: "cache_ok e req st \<Longrightarrow> cache_ok e req (snd (load_form req schema st))"
  by (auto simp: cache_ok_def load_form_def dict_get_def PyNone_def Let_def
      split: option.splits pyval.splits)

lemma load_json_cache_ok: "cache_ok e req st \<Longrightarrow> cache_ok e req (snd (load_json e req schema st))"
  by (auto simp: cache_ok_def load_json_def dict_get_def PyNone_def Let_def
      split: option.splits pyval.splits json_outcome.splits)

lemma load_json_or_form_cache_ok:
  "cache_ok e req st \<Longrightarrow> cache_ok e req (snd (load_json_or_form e req schema st))"
proof -
  assume ok: "cache_ok e req st"
  obtain r st1 where l: "load_json e req schema st = (r, st1)"
    by (cases "load_json e req schema st")
  with load_json_cache_ok[OF ok, of schema] have ok1: "cache_ok e req st1" by simp
  show ?thesis
    using l ok1 load_form_cache_ok[OF ok1, of schema]
    by (cases r) (auto simp: load_json_or_form_def)
qed

lemma load_location_cache_ok:
  "cache_ok e req st \<Longrightarrow> cache_ok e req (snd (load_location e loc req schema st))"
  by (cases loc)
     (simp_all add: load_form_cache_ok load_json_cache_ok load_json_or_form_cache_ok)

lemma run_loads_cache_ok: "cache_ok e req st \<Longrightarrow> cache_ok e req (run_loads e req history st)"
  by (induction e req history st rule: run_loads.induct) (simp_all add: load_location_cache_ok)

lemma load_json_when_nothing_to_read:
  "cache_ok e req st \<Longrightarrow> \<not> (body_exists req \<and> is_json_request e req) \<Longrightarrow>
   load_json e req schema st = (Returns Missing, st)"
  by (auto simp: cache_ok_def load_json_def PyNone_def Let_def split: pyval.splits)

lemma load_json_when_unreadable:
  "cache_ok e req st \<Longrightarrow> body_exists req \<Longrightarrow> is_json_request e req \<Longrightarrow>
   req_json e req = JSONDecodeError doc \<or> req_json e req = UnicodeDecodeError \<Longrightarrow>
   dict_get (cache st) ''json'' = PyNone"
  by (auto simp: cache_ok_def PyNone_def split: pyval.splits)

lemma load_form_result:
  "cache_ok e req st \<Longrightarrow>
   fst (load_form req schema st) = Returns (MultiDictProxy (MultiDict (post req)) schema)"
  by (auto simp: cache_ok_def load_form_def Let_def)

lemma deep_document_length: "length deep_document = 1000"
  by (simp add: deep_document_def)

lemma deep_document_distinct:
  "deep_document \<noteq> []" "deep_document \<noteq> ''null''" "deep_document \<noteq> ''{}''"
  "deep_document \<noteq> ''{name''"
proof -
  have "length doc \<noteq> 1000 \<Longrightarrow> deep_document \<noteq> doc" for doc
    using deep_document_length by auto
  then show "deep_document \<noteq> []" "deep_document \<noteq> ''null''" "deep_document \<noteq> ''{}''"
    "deep_document \<noteq> ''{name''"
    by simp_all
qed

lemma example_loads_simps:
  "example_loads ''null'' = Loaded JNull"
  "example_loads ''{}'' = Loaded (JObj [])"
  "example_loads [] = LoadsJSONDecodeError"
  "example_loads ''{name'' = LoadsJSONDecodeError"
  "example_loads deep_document = LoadsRaises ''RecursionError''"
  using deep_document_distinct by (auto simp: example_loads_def)

lemma example_env_simps:
  "is_json example_env ct = (ct = ''application/json'')"
  "json_loads example_env = example_loads"
  "json_dumps example_env = example_dumps"
  "emap example_env = exception_map example_all"
  by (simp_all add: example_env_def)

text \<open>
  Claim C1, as the spec states it: every body that is not empty and is malformed JSON
  gives the failure with status 400. The handlers of \<^verbatim>\<open>load_json\<close> catch
  \<^verbatim>\<open>JSONDecodeError\<close> and \<^verbatim>\<open>UnicodeDecodeError\<close> only. The body of a thousand opening
  brackets is not empty and is not JSON, \<^verbatim>\<open>json.loads\<close> raises \<^verbatim>\<open>RecursionError\<close> on
  it, and that exception leaves \<^verbatim>\<open>load_json\<close> as it is, although the table holds a
  class for 400.
\<close>

theorem load_json_recursion_error_counterexample:
  "body_exists deep_request
   \<and> is_json example_env (content_type deep_request)
   \<and> body_text deep_request = Text deep_document
   \<and> deep_document \<noteq> []
   \<and> json_loads example_env deep_document = LoadsRaises ''RecursionError''
   \<and> emap example_env 400 = Some HTTPBadRequest
   \<and> load_json example_env deep_request [] init_state =
       (Raises (PyException ''RecursionError''),
        \<lparr>cache = Map.empty, json_reads = 1, post_reads = 0\<rparr>)"
  by (simp add: load_json_def dict_get_def init_state_def PyNone_def is_json_request_def
      req_json_def deep_request_def example_request_def example_env_simps example_loads_simps
      deep_document_distinct example_map_400)

text \<open>
  Claim C1, amended: whatever loads of the request came before, \<^verbatim>\<open>load_json\<close>
  returns \<^verbatim>\<open>missing\<close> when the request has no body, when its content type is not
  JSON, and when its body is the empty document (on which \<^verbatim>\<open>json.loads\<close> raises
  \<^verbatim>\<open>JSONDecodeError\<close>). When decoding the body raises \<^verbatim>\<open>UnicodeDecodeError\<close>, or the
  body is a non-empty document on which \<^verbatim>\<open>json.loads\<close> raises \<^verbatim>\<open>JSONDecodeError\<close>, it
  raises the HTTP error class registered under 400, whose status is 400, with the JSON
  encoding of \<^verbatim>\<open>{"json": ["Invalid JSON body."]}\<close> as the body and the content type
  \<^verbatim>\<open>application/json\<close>.
\<close>

theorem load_json_missing_or_invalid:
  "(\<not> body_exists req \<or> \<not> is_json e (content_type req)
      \<or> (body_text req = Text [] \<and> json_loads e [] = LoadsJSONDecodeError) \<longrightarrow>
      fst (load_json e req schema (run_loads e req history init_state)) = Returns Missing)
   \<and> (body_exists req \<and> is_json e (content_type req)
        \<and> (body_text req = TextUnicodeDecodeError
             \<or> (\<exists>doc. body_text req = Text doc \<and> doc \<noteq> []
                  \<and> json_loads e doc = LoadsJSONDecodeError))
        \<and> emap e = exception_map all
        \<and> ClassObj c \<in> set all \<and> is_http_exception (ClassObj c) \<and> status_code c = Some 400 \<longrightarrow>
        (\<exists>error_class. status_code error_class = Some 400
           \<and> fst (load_json e req schema (run_loads e req history init_state)) =
               Raises (HTTPError
                 \<lparr>err_class = error_class,
                  err_body = json_dumps e invalid_json_messages,
                  err_headers = None,
                  err_content_type = ''application/json''\<rparr>)))"
proof -
  let ?st = "run_loads e req history init_state"
  have ok: "cache_ok e req ?st"
    by (rule run_loads_cache_ok) (rule cache_ok_init)
  have missing: "fst (load_json e req schema ?st) = Returns Missing"
    if "\<not> body_exists req \<or> \<not> is_json e (content_type req)
        \<or> (body_text req = Text [] \<and> json_loads e [] = LoadsJSONDecodeError)"
  proof (cases "body_exists req \<and> is_json_request e req")
    case False
    then show ?thesis
      by (simp add: load_json_when_nothing_to_read[OF ok])
  next
    case True
    with that have empty: "req_json e req = JSONDecodeError []"
      by (auto simp: is_json_request_def req_json_def)
    with True ok have "dict_get (cache ?st) ''json'' = PyNone"
      by (auto intro: load_json_when_unreadable)
    with True empty show ?thesis
      by (simp add: load_json_def)
  qed
  have invalid: "\<exists>error_class. status_code error_class = Some 400
           \<and> fst (load_json e req schema ?st) =
               Raises (HTTPError
                 \<lparr>err_class = error_class,
                  err_body = json_dumps e invalid_json_messages,
                  err_headers = None,
                  err_content_type = ''application/json''\<rparr>)"
    if h: "body_exists req \<and> is_json e (content_type req)
        \<and> (body_text req = TextUnicodeDecodeError
             \<or> (\<exists>doc. body_text req = Text doc \<and> doc \<noteq> []
                  \<and> json_loads e doc = LoadsJSONDecodeError))
        \<and> emap e = exception_map all
        \<and> ClassObj c \<in> set all \<and> is_http_exception (ClassObj c) \<and> status_code c = Some 400"
  proof -
    from h have j: "body_exists req" "is_json_request e req"
      by (simp_all add: is_json_request_def)
    from h have out: "req_json e req = UnicodeDecodeError
        \<or> (\<exists>doc. doc \<noteq> [] \<and> req_json e req = JSONDecodeError doc)"
      by (auto simp: req_json_def)
    then have none: "dict_get (cache ?st) ''json'' = PyNone"
      using load_json_when_unreadable[OF ok j] by auto
    from h obtain r where r: "emap e 400 = Some r" "status_code r = Some 400"
      using find_exceptions_candidates[of all 400 exception_map_seed]
        exception_map_status[of all 400] candidates_nonempty[of c all 400]
      by (auto simp: exception_map_def)
    show ?thesis
      using out none j r
      by (auto simp: load_json_def handle_invalid_json_error_def)
  qed
  from missing invalid show ?thesis by blast
qed

theorem load_json_missing_or_invalid_witness:
  \<open>fst (load_json example_env empty_request []
          (run_loads example_env empty_request [(LocJsonOrForm, []), (LocJson, [])] init_state))
     = Returns Missing
   \<and> fst (load_json example_env form_request []
          (run_loads example_env form_request [(LocJsonOrForm, [])] init_state))
     = Returns Missing
   \<and> (\<exists>error_class. status_code error_class = Some 400
        \<and> fst (load_json example_env malformed_request []
                 (run_loads example_env malformed_request [(LocJson, [])] init_state))
           = Raises (HTTPError
               \<lparr>err_class = error_class,
                err_body = ''{"json": ["Invalid JSON body."]}'',
                err_headers = None,
                err_content_type = ''application/json''\<rparr>))\<close>
proof -
  have a: "body_text empty_request = Text []
      \<and> json_loads example_env [] = LoadsJSONDecodeError"
    by (simp add: empty_request_def example_request_def example_env_simps example_loads_simps)
  have b: "\<not> is_json example_env (content_type form_request)"
    by (simp add: form_request_def example_request_def example_env_simps)
  have c: "body_exists malformed_request \<and> is_json example_env (content_type malformed_request)
        \<and> (body_text malformed_request = TextUnicodeDecodeError
             \<or> (\<exists>doc. body_text malformed_request = Text doc \<and> doc \<noteq> []
                  \<and> json_loads example_env doc = LoadsJSONDecodeError))
        \<and> emap example_env = exception_map example_all
        \<and> ClassObj HTTPBadRequest \<in> set example_all
        \<and> is_http_exception (ClassObj HTTPBadRequest) \<and> status_code HTTPBadRequest = Some 400"
    by (simp add: malformed_request_def example_request_def example_env_simps example_loads_simps
        example_all_def HTTPBadRequest_def)
  have d: \<open>json_dumps example_env invalid_json_messages = ''{"json": ["Invalid JSON body."]}''\<close>
    by (simp add: example_env_simps example_dumps_def)
  from load_json_missing_or_invalid[where req = empty_request and e = example_env
      and schema = "[]" and history = "[(LocJsonOrForm, []), (LocJson, [])]"
      and all = example_all and c = HTTPBadRequest, THEN conjunct1] a
  have 1: "fst (load_json example_env empty_request []
          (run_loads example_env empty_request [(LocJsonOrForm, []), (LocJson, [])] init_state))
     = Returns Missing"
    by blast
  from load_json_missing_or_invalid[where req = form_request and e = example_env
      and schema = "[]" and history = "[(LocJsonOrForm, [])]"
      and all = example_all and c = HTTPBadRequest, THEN conjunct1] b
  have 2: "fst (load_json example_env form_request []
          (run_loads example_env form_request [(LocJsonOrForm, [])] init_state))
     = Returns Missing"
    by blast
  from load_json_missing_or_invalid[where req = malformed_request and e = example_env
      and schema = "[]" and history = "[(LocJson, [])]"
      and all = example_all and c = HTTPBadRequest, THEN conjunct2] c
  have 3: "\<exists>error_class. status_code error_class = Some 400
        \<and> fst (load_json example_env malformed_request []
                 (run_loads example_env malformed_request [(LocJson, [])] init_state))
           = Raises (HTTPError
               \<lparr>err_class = error_class,
                err_body = json_dumps example_env invalid_json_messages,
                err_headers = None,
                err_content_type = ''application/json''\<rparr>)"
    by blast
  from 1 2 3 show ?thesis
    unfolding d by blast
qed

text \<open>
  Claim C5: \<^verbatim>\<open>load_json_or_form\<close> loads the JSON first. It goes on to load the form
  exactly when that load returns \<^verbatim>\<open>missing\<close>, and otherwise its outcome is that of the
  JSON load. For a request whose content type is not JSON it returns the proxy over the
  request's form data, whatever loads came before.
\<close>

theorem load_json_or_form_falls_back:
  "(fst (load_json e req schema st) = Returns Missing \<longrightarrow>
      load_json_or_form e req schema st = load_form req schema (snd (load_json e req schema st)))
   \<and> (fst (load_json e req schema st) \<noteq> Returns Missing \<longrightarrow>
        load_json_or_form e req schema st = load_json e req schema st)
   \<and> (\<not> is_json e (content_type req) \<longrightarrow>
        fst (load_json_or_form e req schema (run_loads e req history init_state)) =
          Returns (MultiDictProxy (MultiDict (post req)) schema))"
proof -
  let ?st = "run_loads e req history init_state"
  have ok: "cache_ok e req ?st"
    by (rule run_loads_cache_ok) (rule cache_ok_init)
  have "fst (load_json_or_form e req schema ?st) =
          Returns (MultiDictProxy (MultiDict (post req)) schema)"
    if "\<not> is_json e (content_type req)"
    using that load_json_when_nothing_to_read[OF ok, of schema] load_form_result[OF ok, of schema]
    by (simp add: load_json_or_form_def is_json_request_def)
  moreover have "fst (load_json e req schema st) = Returns Missing \<longrightarrow>
      load_json_or_form e req schema st = load_form req schema (snd (load_json e req schema st))"
    by (cases "load_json e req schema st") (auto simp: load_json_or_form_def split: result.splits)
  moreover have "fst (load_json e req schema st) \<noteq> Returns Missing \<longrightarrow>
        load_json_or_form e req schema st = load_json e req schema st"
    by (cases "load_json e req schema st") (auto simp: load_json_or_form_def split: result.splits)
  ultimately show ?thesis by blast
qed

lemma load_json_example:
  "load_json example_env example_request [] init_state =
     (Returns (Value (Json (JObj []))),
      \<lparr>cache = [''json'' \<mapsto> Json (JObj [])], json_reads = 1, post_reads = 0\<rparr>)"
  by (simp add: load_json_def dict_get_def init_state_def PyNone_def is_json_request_def
      req_json_def example_env_simps example_request_def example_loads_simps)

theorem load_json_or_form_falls_back_witness:
  "fst (load_json_or_form example_env form_request [(''name'', ScalarField)]
          (run_loads example_env form_request [(LocForm, []), (LocJson, [])] init_state))
     = Returns (MultiDictProxy (MultiDict [(''name'', ''Ada'')]) [(''name'', ScalarField)])
   \<and> load_json_or_form example_env example_request [] init_state
     = load_json example_env example_request [] init_state
   \<and> load_json_or_form example_env form_request [] init_state
     = load_form form_request [] (snd (load_json example_env form_request [] init_state))"
proof -
  have b: "\<not> is_json example_env (content_type form_request)"
    by (simp add: form_request_def example_request_def example_env_simps)
  have p: "post form_request = [(''name'', ''Ada'')]"
    by (simp add: form_request_def)
  have m: "fst (load_json example_env form_request [] init_state) = Returns Missing"
    by (simp add: load_json_def dict_get_def init_state_def PyNone_def is_json_request_def b)
  have j: "fst (load_json example_env example_request [] init_state) \<noteq> Returns Missing"
    by (simp add: load_json_example)
  from load_json_or_form_falls_back[of example_env form_request "[(''name'', ScalarField)]"
      init_state "[(LocForm, []), (LocJson, [])]"] b p
  have 1: "fst (load_json_or_form example_env form_request [(''name'', ScalarField)]
          (run_loads example_env form_request [(LocForm, []), (LocJson, [])] init_state))
     = Returns (MultiDictProxy (MultiDict [(''name'', ''Ada'')]) [(''name'', ScalarField)])"
    by simp
  from load_json_or_form_falls_back[of example_env example_request "[]" init_state "[]"] j
  have 2: "load_json_or_form example_env example_request [] init_state
     = load_json example_env example_request [] init_state"
    by blast
  from load_json_or_form_falls_back[of example_env form_request "[]" init_state "[]"] m
  have 3: "load_json_or_form example_env form_request [] init_state
     = load_form form_request [] (snd (load_json example_env form_request [] init_state))"
    by blast
  from 1 2 3 show ?thesis by blast
qed

section \<open>How often a body is read\<close>

lemma load_json_cached:
  "dict_get (cache st) ''json'' \<noteq> PyNone \<Longrightarrow>
   load_json e req schema st = (Returns (Value (dict_get (cache st) ''json'')), st)"
  by (simp add: load_json_def)

lemma load_form_cached:
  "dict_get (cache st) ''post'' \<noteq> PyNone \<Longrightarrow>
   load_form req schema st = (Returns (MultiDictProxy (dict_get (cache st) ''post'') schema), st)"
  by (simp add: load_form_def)

lemma load_form_post_read_once:
  "post_read_once st \<Longrightarrow> post_read_once (snd (load_form req schema st))"
  by (auto simp: post_read_once_def load_form_def Let_def dict_get_def PyNone_def)

lemma load_json_post_read_once:
  "post_read_once st \<Longrightarrow> post_read_once (snd (load_json e req schema st))"
  by (auto simp: post_read_once_def load_json_def Let_def dict_get_def split: json_outcome.splits)

lemma load_json_or_form_post_read_once:
  assumes "post_read_once st"
  shows "post_read_once (snd (load_json_or_form e req schema st))"
proof -
  obtain r st1 where l: "load_json e req schema st = (r, st1)"
    by (cases "load_json e req schema st")
  with load_json_post_read_once[OF assms, of e req schema] have "post_read_once st1"
    by simp
  with l load_form_post_read_once[of st1 req schema] show ?thesis
    by (cases r) (auto simp: load_json_or_form_def)
qed

lemma load_location_post_read_once:
  "post_read_once st \<Longrightarrow> post_read_once (snd (load_location e loc req schema st))"
  by (cases loc)
     (simp_all add: load_form_post_read_once load_json_post_read_once
        load_json_or_form_post_read_once)

lemma run_loads_post_read_once:
  "post_read_once st \<Longrightarrow> post_read_once (run_loads e req history st)"
  by (induction e req history st rule: run_loads.induct)
     (simp_all add: load_location_post_read_once)

text \<open>The form body is read at most once, whatever the loads of the request are.\<close>

lemma post_read_at_most_once: "post_reads (run_loads e req history init_state) \<le> 1"
proof -
  have "post_read_once (run_loads e req history init_state)"
    by (rule run_loads_post_read_once) (simp add: post_read_once_def init_state_def)
  then show ?thesis
    by (auto simp: post_read_once_def)
qed

lemma load_json_json_read_once:
  "req_json e req = JsonOk v \<Longrightarrow> v \<noteq> JNull \<Longrightarrow> json_read_once st \<Longrightarrow>
   json_read_once (snd (load_json e req schema st))"
  by (auto simp: json_read_once_def load_json_def Let_def dict_get_def PyNone_def)

lemma load_form_json_read_once:
  "json_read_once st \<Longrightarrow> json_read_once (snd (load_form req schema st))"
  by (auto simp: json_read_once_def load_form_def Let_def dict_get_def)

lemma load_json_or_form_json_read_once:
  assumes "req_json e req = JsonOk v" "v \<noteq> JNull" "json_read_once st"
  shows "json_read_once (snd (load_json_or_form e req schema st))"
proof -
  obtain r st1 where l: "load_json e req schema st = (r, st1)"
    by (cases "load_json e req schema st")
  with load_json_json_read_once[OF assms, of schema] have "json_read_once st1"
    by simp
  with l load_form_json_read_once[of st1 req schema] show ?thesis
    by (cases r) (auto simp: load_json_or_form_def)
qed

lemma load_location_json_read_once:
  "req_json e req = JsonOk v \<Longrightarrow> v \<noteq> JNull \<Longrightarrow> json_read_once st \<Longrightarrow>
   json_read_once (snd (load_location e loc req schema st))"
  by (cases loc)
     (simp_all add: load_form_json_read_once load_json_json_read_once
        load_json_or_form_json_read_once)

lemma run_loads_json_read_once:
  "req_json e req = JsonOk v \<Longrightarrow> v \<noteq> JNull \<Longrightarrow> json_read_once st \<Longrightarrow>
   json_read_once (run_loads e req history st)"
  by (induction e req history st rule: run_loads.induct)
     (simp_all add: load_location_json_read_once)

text \<open>
  The JSON body is read at most once when reading it gives a payload other than
  \<^verbatim>\<open>None\<close>.
\<close>

lemma json_read_at_most_once:
  assumes "req_json e req = JsonOk v" "v \<noteq> JNull"
  shows "json_reads (run_loads e req history init_state) \<le> 1"
proof -
  have "json_read_once (run_loads e req history init_state)"
    by (rule run_loads_json_read_once[OF assms]) (simp add: json_read_once_def init_state_def)
  then show ?thesis
    by (auto simp: json_read_once_def)
qed

lemma null_request_simps:
  "body_exists null_request" "content_type null_request = ''application/json''"
  "body_text null_request = Text ''null''" "post null_request = []"
  by (simp_all add: null_request_def example_request_def)

lemma req_json_null: "req_json example_env null_request = JsonOk JNull"
  by (simp add: req_json_def null_request_simps example_env_simps example_loads_simps)

text \<open>
  Claim C2: the cache lets each kind of body be read at most once, a later load
  returning what the first read stored. That holds of the form body and of a JSON body
  whose payload is not \<^verbatim>\<open>None\<close>, as the lemmas above show. It fails for the body
  \<^verbatim>\<open>null\<close>: the payload \<^verbatim>\<open>None\<close> is stored, the test \<^verbatim>\<open>json_data is None\<close> of the
  next load takes it for an empty cache, and the body is read a second time.
\<close>

theorem json_null_body_read_twice:
  "load_location example_env LocJsonOrForm null_request [] init_state =
     (Returns (Value (Json JNull)),
      \<lparr>cache = [''json'' \<mapsto> Json JNull], json_reads = 1, post_reads = 0\<rparr>)
   \<and> load_location example_env LocJson null_request []
       \<lparr>cache = [''json'' \<mapsto> Json JNull], json_reads = 1, post_reads = 0\<rparr> =
     (Returns (Value (Json JNull)),
      \<lparr>cache = [''json'' \<mapsto> Json JNull], json_reads = 2, post_reads = 0\<rparr>)
   \<and> json_reads (run_loads example_env null_request [(LocJsonOrForm, []), (LocJson, [])] init_state) = 2"
proof -
  have 1: "load_json example_env null_request [] init_state =
     (Returns (Value (Json JNull)),
      \<lparr>cache = [''json'' \<mapsto> Json JNull], json_reads = 1, post_reads = 0\<rparr>)"
    by (simp add: load_json_def dict_get_def init_state_def PyNone_def is_json_request_def
        req_json_null null_request_simps example_env_simps Let_def)
  have 2: "load_json example_env null_request []
       \<lparr>cache = [''json'' \<mapsto> Json JNull], json_reads = 1, post_reads = 0\<rparr> =
     (Returns (Value (Json JNull)),
      \<lparr>cache = [''json'' \<mapsto> Json JNull], json_reads = 2, post_reads = 0\<rparr>)"
    by (simp add: load_json_def dict_get_def PyNone_def is_json_request_def
        req_json_null null_request_simps example_env_simps Let_def)
  from 1 2 show ?thesis
    by (simp add: load_json_or_form_def Let_def)
qed

text \<open>
  A read that ends in \<^verbatim>\<open>missing\<close> stores nothing either, so that the empty body of
  a JSON request is read again by every load.
\<close>

lemma empty_request_simps:
  "body_exists empty_request" "content_type empty_request = ''application/json''"
  "body_text empty_request = Text []" "post empty_request = []"
  by (simp_all add: empty_request_def example_request_def)

lemma req_json_empty: "req_json example_env empty_request = JSONDecodeError []"
  by (simp add: req_json_def empty_request_def example_request_def example_env_simps
      example_loads_simps)

lemma json_empty_body_read_twice:
  "json_reads (run_loads example_env empty_request [(LocJsonOrForm, []), (LocJson, [])] init_state) = 2"
proof -
  have 1: "load_json example_env empty_request [] st =
     (if dict_get (cache st) ''json'' = PyNone
      then (Returns Missing, st\<lparr>json_reads := Suc (json_reads st)\<rparr>)
      else (Returns (Value (dict_get (cache st) ''json'')), st))" for st
    by (simp add: load_json_def is_json_request_def req_json_empty example_env_simps
        empty_request_simps)
  show ?thesis
    by (simp add: load_json_or_form_def 1 load_form_def dict_get_def init_state_def PyNone_def Let_def)
qed

section \<open>Query parameters\<close>

text \<open>
  Claim C6: \<^verbatim>\<open>parse\<close> with the location \<^verbatim>\<open>query\<close> binds a field that the schema
  declares scalar to the single value submitted for its key, and a field that the schema
  declares list-typed to all the values submitted for its key, in order. Whether a
  bound value is a list follows the declared kind of the field alone.
\<close>

theorem parse_query_scalar_and_list:
  "(map_of schema name = Some ScalarField \<and> getall (query req) name = [v] \<longrightarrow>
      parse_query schema req name = Some (One v))
   \<and> (map_of schema name = Some ListField \<and> getall (query req) name \<noteq> [] \<longrightarrow>
        parse_query schema req name = Some (Many (getall (query req) name)))
   \<and> (map_of schema name = Some kind \<and> parse_query schema req name = Some b \<longrightarrow>
        ((\<exists>vs. b = Many vs) \<longleftrightarrow> kind = ListField))"
  by (auto simp: parse_query_def load_querystring_def split: list.splits if_splits)

theorem parse_query_scalar_and_list_witness:
  "parse_query example_schema example_request ''name'' = Some (One ''Ada'')
   \<and> parse_query example_schema example_request ''tag'' = Some (Many [''a'', ''b''])
   \<and> getall (query example_request) ''tag'' = [''a'', ''b'']
   \<and> (\<exists>vs. Many [''a'', ''b''] = Many vs)"
proof -
  have s: "map_of example_schema ''name'' = Some ScalarField"
    "map_of example_schema ''tag'' = Some ListField"
    by (simp_all add: example_schema_def)
  have g: "getall (query example_request) ''name'' = [''Ada'']"
    "getall (query example_request) ''tag'' = [''a'', ''b'']"
    by (simp_all add: getall_def example_request_def)
  from parse_query_scalar_and_list[of example_schema "''name''" example_request "''Ada''"] s g
  have 1: "parse_query example_schema example_request ''name'' = Some (One ''Ada'')"
    by blast
  note t = parse_query_scalar_and_list[of example_schema "''tag''" example_request _ ListField
      "Many [''a'', ''b'']"]
  from t s g
  have 2: "parse_query example_schema example_request ''tag'' = Some (Many [''a'', ''b''])"
    by simp
  from t s 2 have 3: "\<exists>vs. Many [''a'', ''b''] = Many vs"
    by blast
  from 1 2 3 g show ?thesis by simp
qed

end
